theory Spec2Isabelle
  imports Complex_Main "HOL-Library.Log_Nat"
begin

section \<open>Python values used by the two scripts\<close>

text \<open>
  Exceptions that the modelled code can raise.  \<open>ValueError\<close> carries the text that could
  not be converted, \<open>KeyError\<close> the missing key, \<open>FileNotFoundError\<close> the path.
\<close>

datatype py_error =
    KeyError string
  | TypeError
  | ValueError string
  | FileNotFoundError string
  | TOMLDecodeError
  | InvalidOperation
  | OverflowError

text \<open>
  A finite Python \<open>float\<close> is written as the decimal numeral that \<open>str()\<close> prints for it:
  sign, digits and exponent, exactly the tuple of \<open>Decimal(str(x))\<close>.  So \<open>0.1\<close> is
  \<open>Float False 1 (- 1)\<close>, \<open>3.0\<close> is \<open>Float False 30 (- 1)\<close> and \<open>1e+16\<close> is \<open>Float False 1 16\<close>.
  A numeral denotes the binary64 value nearest to it (\<open>binary64\<close> below), which is what
  the \<open>f\<close> format rounds.  \<open>FInf\<close> and \<open>FNaN\<close> are \<open>inf\<close> and \<open>nan\<close>; the sign is \<open>True\<close> for
  negative.
\<close>

datatype pyfloat = Float bool nat int | FInf bool | FNaN

datatype pynum = PyInt int | PyFloat pyfloat

text \<open>\<open>decimal.Decimal\<close>: sign, coefficient and exponent, or a special value.\<close>

datatype pydecimal = Dec bool nat int | DInf bool | DNaN

fun float_truthy :: "pyfloat \<Rightarrow> bool" where
  "float_truthy (Float s c e) = (c \<noteq> 0)"
| "float_truthy (FInf s) = True"
| "float_truthy FNaN = True"

fun str_truthy :: "string option \<Rightarrow> bool" where
  "str_truthy None = False"
| "str_truthy (Some s) = (s \<noteq> [])"

subsection \<open>Rounding\<close>

definition round_half_even :: "rat \<Rightarrow> int" where
  "round_half_even q =
     (let f = \<lfloor>q\<rfloor>; r = q - of_int f
      in if r < 1 / 2 then f else if 1 / 2 < r then f + 1
         else if even f then f else f + 1)"

definition floor_log :: "nat \<Rightarrow> rat \<Rightarrow> int" where
  "floor_log b q =
     (let (n, d) = quotient_of q;
          k = int (floorlog b (nat n)) - int (floorlog b (nat d))
      in if of_nat b powi k \<le> q then k else k - 1)"

text \<open>
  The binary64 value nearest to a non-negative rational (ties to even), \<open>None\<close> when it
  rounds to infinity.
\<close>

definition binary64 :: "rat \<Rightarrow> rat option" where
  "binary64 q =
     (if q = 0 then Some 0
      else let e = floor_log 2 q;
               p = max (e - 52) (- 1074);
               v = of_int (round_half_even (q / 2 powi p)) * 2 powi p
           in if 2 ^ 1024 \<le> v then None else Some v)"

subsection \<open>Decimal arithmetic in the default context\<close>

text \<open>
  The script never changes the decimal context: precision 28, \<open>ROUND_HALF_EVEN\<close>, and
  \<open>InvalidOperation\<close> trapped.  The exponent limits (\<open>Emax = 999999\<close>) are out of reach
  of products and sums of float numerals and are left out.
\<close>

definition prec :: nat where
  "prec = 28"


fun dec_fix :: "pydecimal \<Rightarrow> pydecimal" where
  "dec_fix (Dec s c e) =
     (let n = floorlog 10 c
      in if n \<le> prec then Dec s c e
         else let k = n - prec;
                  r = nat (round_half_even (of_nat c / 10 ^ k))
              in if r = 10 ^ prec then Dec s (10 ^ (prec - 1)) (e + int k + 1)
                 else Dec s r (e + int k))"
| "dec_fix (DInf s) = DInf s"
| "dec_fix DNaN = DNaN"

fun dec_mul :: "pydecimal \<Rightarrow> pydecimal \<Rightarrow> py_error + pydecimal" where
  "dec_mul DNaN y = Inr DNaN"
| "dec_mul x DNaN = Inr DNaN"
| "dec_mul (DInf s) (DInf t) = Inr (DInf (s \<noteq> t))"
| "dec_mul (DInf s) (Dec t c e) = (if c = 0 then Inl InvalidOperation else Inr (DInf (s \<noteq> t)))"
| "dec_mul (Dec s c e) (DInf t) = (if c = 0 then Inl InvalidOperation else Inr (DInf (s \<noteq> t)))"
| "dec_mul (Dec s c e) (Dec t d f) = Inr (dec_fix (Dec (s \<noteq> t) (c * d) (e + f)))"

definition signed :: "bool \<Rightarrow> nat \<Rightarrow> int" where
  "signed s c = (if s then - int c else int c)"

fun dec_add :: "pydecimal \<Rightarrow> pydecimal \<Rightarrow> py_error + pydecimal" where
  "dec_add DNaN y = Inr DNaN"
| "dec_add x DNaN = Inr DNaN"
| "dec_add (DInf s) (DInf t) = (if s = t then Inr (DInf s) else Inl InvalidOperation)"
| "dec_add (DInf s) (Dec t c e) = Inr (DInf s)"
| "dec_add (Dec s c e) (DInf t) = Inr (DInf t)"
| "dec_add (Dec s c e) (Dec t d f) =
     (let x = min e f;
          n = signed s c * 10 ^ nat (e - x) + signed t d * 10 ^ nat (f - x)
      in Inr (dec_fix (if n = 0 then Dec (c = 0 \<and> d = 0 \<and> s \<and> t) 0 x
                       else Dec (n < 0) (nat \<bar>n\<bar>) x)))"

fun Decimal_str_float :: "pyfloat \<Rightarrow> pydecimal" where
  "Decimal_str_float (Float s c e) = Dec s c e"
| "Decimal_str_float (FInf s) = DInf s"
| "Decimal_str_float FNaN = DNaN"

fun Decimal_str :: "pynum \<Rightarrow> pydecimal" where
  "Decimal_str (PyInt n) = Dec (n < 0) (nat \<bar>n\<bar>) 0"
| "Decimal_str (PyFloat x) = Decimal_str_float x"

text \<open>
  \<open>float(d)\<close> is the binary64 value nearest to \<open>d\<close>; the numeral of \<open>d\<close> denotes it.  The
  result is only ever formatted.
\<close>

fun float_of_Decimal :: "pydecimal \<Rightarrow> pyfloat" where
  "float_of_Decimal (Dec s c e) = Float s c e"
| "float_of_Decimal (DInf s) = FInf s"
| "float_of_Decimal DNaN = FNaN"

subsection \<open>Format specifications \<open>.1f\<close>, \<open>.2f\<close> and \<open>,.2f\<close>\<close>

definition digit_char :: "nat \<Rightarrow> char" where
  "digit_char d = ''0123456789'' ! d"

fun nat_digits :: "nat \<Rightarrow> string" where
  "nat_digits n = (if n < 10 then [digit_char n] else nat_digits (n div 10) @ [digit_char (n mod 10)])"

declare nat_digits.simps [simp del]

definition zero_pad :: "nat \<Rightarrow> string \<Rightarrow> string" where
  "zero_pad w s = replicate (w - length s) (CHR ''0'') @ s"

fun group3_rev :: "string \<Rightarrow> string" where
  "group3_rev (a # b # c # d # r) = a # b # c # CHR '','' # group3_rev (d # r)"
| "group3_rev r = r"

definition group3 :: "string \<Rightarrow> string" where
  "group3 s = rev (group3_rev (rev s))"

definition fmt_finite :: "nat \<Rightarrow> bool \<Rightarrow> bool \<Rightarrow> rat \<Rightarrow> string" where
  "fmt_finite p grouped s q =
     (let n = nat (round_half_even (q * 10 ^ p));
          ip = nat_digits (n div 10 ^ p);
          fp = zero_pad p (nat_digits (n mod 10 ^ p))
      in (if s then ''-'' else '''') @ (if grouped then group3 ip else ip) @
         (if p = 0 then '''' else ''.'' @ fp))"

fun fmt_f :: "nat \<Rightarrow> bool \<Rightarrow> pyfloat \<Rightarrow> string" where
  "fmt_f p grouped FNaN = ''nan''"
| "fmt_f p grouped (FInf s) = (if s then ''-inf'' else ''inf'')"
| "fmt_f p grouped (Float s c e) =
     (case binary64 (of_nat c * 10 powi e) of
        None \<Rightarrow> (if s then ''-inf'' else ''inf'')
      | Some q \<Rightarrow> fmt_finite p grouped s q)"

text \<open>\<open>f"{n:.2f}"\<close> on an \<open>int\<close> converts it to \<open>float\<close> first, which can overflow.\<close>

fun fmt_num :: "nat \<Rightarrow> pynum \<Rightarrow> py_error + string" where
  "fmt_num p (PyFloat x) = Inr (fmt_f p False x)"
| "fmt_num p (PyInt n) =
     (case binary64 (of_int \<bar>n\<bar>) of
        None \<Rightarrow> Inl OverflowError
      | Some q \<Rightarrow> Inr (fmt_finite p False (n < 0) q))"

text \<open>\<^verbatim>\<open>def format_currency(amount: float) -> str: return f"${amount:,.2f}"\<close>\<close>

definition format_currency :: "pyfloat \<Rightarrow> string" where
  "format_currency amount = ''$'' @ fmt_f 2 True amount"

section \<open>The invoice builder (\<open>create_invoice.py\<close>)\<close>

subsection \<open>Configuration and line items\<close>

text \<open>
  The dictionary that \<open>tomllib.load\<close> returns for a configuration file with the four
  tables the script reads.  \<open>default_rate\<close> is a TOML integer or float.
\<close>

record invoice_cfg =
  number_prefix :: string
  filename_prefix :: string
  default_description :: string
  default_rate :: pynum

record config =
  sender :: "string \<rightharpoonup> string"
  client :: "string \<rightharpoonup> string"
  bank :: "string \<rightharpoonup> string"
  invoice :: invoice_cfg

text \<open>
  A line item dictionary.  \<open>description\<close> is \<open>None\<close> when \<open>csv.DictReader\<close> filled a short
  row with its \<open>restval\<close>.
\<close>

record line_item =
  hours :: pyfloat
  description :: "string option"
  rate :: pynum

text \<open>
  What the script reads from outside: the TOML files (\<open>None\<close> inside: the file does not
  parse), the rows \<open>csv.DictReader\<close> yields for each CSV file (a cell is \<open>None\<close> where the row
  is shorter than the header), and the path of \<open>config.toml\<close> beside the script.
\<close>

record env =
  toml_files :: "string \<rightharpoonup> config option"
  csv_files :: "string \<rightharpoonup> (string \<rightharpoonup> string option) list"
  default_config_path :: string

text \<open>The namespace \<open>parse_args\<close> returns; \<open>--date\<close> has a default, so it is always set.\<close>

record args =
  args_hours :: "pyfloat option"
  args_rate :: "pyfloat option"
  args_description :: "string option"
  args_date :: string
  args_csv :: "string option"
  args_output :: "string option"
  args_config :: "string option"

definition load_config :: "env \<Rightarrow> string option \<Rightarrow> py_error + config" where
  "load_config ev config_path =
     (let path = (case config_path of None \<Rightarrow> default_config_path ev | Some p \<Rightarrow> p)
      in case toml_files ev path of
           None \<Rightarrow> Inl (FileNotFoundError path)
         | Some None \<Rightarrow> Inl TOMLDecodeError
         | Some (Some c) \<Rightarrow> Inr c)"

subsection \<open>\<open>float(text)\<close>\<close>

definition is_digit :: "char \<Rightarrow> bool" where
  "is_digit c = (c \<in> set ''0123456789'')"

definition is_space :: "char \<Rightarrow> bool" where
  "is_space c = (c \<in> set [CHR '' '', CHR 0x09, CHR 0x0A, CHR 0x0B, CHR 0x0C, CHR 0x0D])"

definition py_strip :: "string \<Rightarrow> string" where
  "py_strip s = rev (dropWhile is_space (rev (dropWhile is_space s)))"

definition digit_val :: "char \<Rightarrow> nat" where
  "digit_val c = of_char c - 48"

definition digits_val :: "string \<Rightarrow> nat" where
  "digits_val ds = foldl (\<lambda>n c. 10 * n + digit_val c) 0 ds"

definition lower_char :: "char \<Rightarrow> char" where
  "lower_char c =
     (case map_of (zip ''ABCDEFGHIJKLMNOPQRSTUVWXYZ'' ''abcdefghijklmnopqrstuvwxyz'') c of
        Some l \<Rightarrow> l
      | None \<Rightarrow> c)"

text \<open>A run of digits, single underscores allowed between two digits; returns the rest.\<close>

fun take_digits :: "string \<Rightarrow> string \<times> string" where
  "take_digits [] = ([], [])"
| "take_digits (c # cs) =
     (if is_digit c then
        (case cs of
           u # d # r \<Rightarrow>
             if u = CHR ''_'' \<and> is_digit d
             then (let (ds, rest) = take_digits (d # r) in (c # ds, rest))
             else (let (ds, rest) = take_digits cs in (c # ds, rest))
         | _ \<Rightarrow> (let (ds, rest) = take_digits cs in (c # ds, rest)))
      else ([], c # cs))"

fun take_sign :: "string \<Rightarrow> bool \<times> string" where
  "take_sign (c # cs) =
     (if c = CHR ''-'' then (True, cs) else if c = CHR ''+'' then (False, cs) else (False, c # cs))"
| "take_sign [] = (False, [])"

text \<open>The exponent part: \<open>None\<close> when malformed, otherwise its value (0 when absent).\<close>

definition take_exponent :: "string \<Rightarrow> int option" where
  "take_exponent s =
     (case s of
        [] \<Rightarrow> Some 0
      | c # cs \<Rightarrow>
          if c = CHR ''e'' \<or> c = CHR ''E'' then
            (let (neg, r) = take_sign cs; (ds, rest) = take_digits r
             in if ds = [] \<or> rest \<noteq> [] then None
                else Some (if neg then - int (digits_val ds) else int (digits_val ds)))
          else None)"

fun strip_zeros :: "nat \<Rightarrow> nat \<times> int \<Rightarrow> nat \<times> int" where
  "strip_zeros 0 (d, sc) = (d, sc)"
| "strip_zeros (Suc fuel) (d, sc) =
     (if d \<noteq> 0 \<and> d mod 10 = 0 then strip_zeros fuel (d div 10, sc + 1) else (d, sc))"

text \<open>
  The numeral \<open>str()\<close> prints for the float read from digits \<open>c\<close> and exponent \<open>e\<close>: fixed
  notation with a trailing \<open>.0\<close> for whole numbers below \<open>1e16\<close>, the shortest digits
  otherwise.  In the normal range, numerals of at most 15 significant digits name their
  float; for longer ones (and for subnormal values) Python prints the digits of the
  nearest binary64 value, and the model keeps the digits that were read.
\<close>

definition float_numeral :: "bool \<Rightarrow> nat \<Rightarrow> int \<Rightarrow> pyfloat" where
  "float_numeral s c e =
     (let q = of_nat c * 10 powi e :: rat
      in if 2 ^ 1024 - 2 ^ 970 \<le> q then FInf s
         else if q \<le> 1 / 2 ^ 1075 then Float s 0 (- 1)
         else let (d, sc) = strip_zeros (floorlog 10 c) (c, e);
                  decpt = sc + int (floorlog 10 d)
              in if - 4 < decpt \<and> decpt \<le> 16 \<and> 0 \<le> sc
                 then Float s (d * 10 ^ nat (sc + 1)) (- 1)
                 else Float s d sc)"

definition py_float :: "string \<Rightarrow> py_error + pyfloat" where
  "py_float text =
     (let (neg, body) = take_sign (py_strip text);
          low = map lower_char body
      in if low = ''inf'' \<or> low = ''infinity'' then Inr (FInf neg)
         else if low = ''nan'' then Inr FNaN
         else
           let (ip, r1) = take_digits body;
               (fp, r2) = (case r1 of
                             c # cs \<Rightarrow> if c = CHR ''.'' then take_digits cs else ([], r1)
                           | [] \<Rightarrow> ([], r1))
           in if ip = [] \<and> fp = [] then Inl (ValueError text)
              else (case take_exponent r2 of
                      None \<Rightarrow> Inl (ValueError text)
                    | Some x \<Rightarrow>
                        Inr (float_numeral neg (digits_val (ip @ fp)) (x - int (length fp)))))"

subsection \<open>\<open>load_line_items_from_csv\<close>\<close>

text \<open>\<open>float(row[key])\<close>: the key can be missing, the cell can be \<open>None\<close>, the text can fail.\<close>

definition float_cell :: "(string \<rightharpoonup> string option) \<Rightarrow> string \<Rightarrow> py_error + pyfloat" where
  "float_cell row key =
     (case row key of
        None \<Rightarrow> Inl (KeyError key)
      | Some None \<Rightarrow> Inl TypeError
      | Some (Some text) \<Rightarrow> py_float text)"

definition row_item :: "(string \<rightharpoonup> string option) \<Rightarrow> py_error + line_item" where
  "row_item row =
     (case float_cell row ''hours'' of
        Inl e \<Rightarrow> Inl e
      | Inr h \<Rightarrow>
          (case row ''description'' of
             None \<Rightarrow> Inl (KeyError ''description'')
           | Some desc \<Rightarrow>
               (case float_cell row ''rate'' of
                  Inl e \<Rightarrow> Inl e
                | Inr r \<Rightarrow> Inr \<lparr>hours = h, description = desc, rate = PyFloat r\<rparr>)))"

fun rows_items :: "(string \<rightharpoonup> string option) list \<Rightarrow> line_item list \<Rightarrow> py_error + line_item list" where
  "rows_items [] items = Inr items"
| "rows_items (row # rows) items =
     (case row_item row of
        Inl e \<Rightarrow> Inl e
      | Inr item \<Rightarrow> rows_items rows (items @ [item]))"

definition load_line_items_from_csv :: "env \<Rightarrow> string \<Rightarrow> py_error + line_item list" where
  "load_line_items_from_csv ev csv_path =
     (case csv_files ev csv_path of
        None \<Rightarrow> Inl (FileNotFoundError csv_path)
      | Some rows \<Rightarrow> rows_items rows [])"

subsection \<open>\<open>datetime.strptime(date_str, "%Y-%m-%d")\<close>\<close>

definition month_digits :: "string \<Rightarrow> bool" where
  "month_digits m =
     (case m of
        [a] \<Rightarrow> a \<in> set ''123456789''
      | [a, b] \<Rightarrow> (a = CHR ''1'' \<and> b \<in> set ''012'') \<or> (a = CHR ''0'' \<and> b \<in> set ''123456789'')
      | _ \<Rightarrow> False)"

definition day_digits :: "string \<Rightarrow> bool" where
  "day_digits d =
     (case d of
        [a] \<Rightarrow> a \<in> set ''123456789''
      | [a, b] \<Rightarrow>
          (a = CHR ''3'' \<and> b \<in> set ''01'') \<or> (a \<in> set ''12'' \<and> is_digit b) \<or>
          (a \<in> set ''0 '' \<and> b \<in> set ''123456789'')
      | _ \<Rightarrow> False)"

definition days_in_month :: "nat \<Rightarrow> nat \<Rightarrow> nat" where
  "days_in_month y m =
     (if m = 2 then (if y mod 4 = 0 \<and> (y mod 100 \<noteq> 0 \<or> y mod 400 = 0) then 29 else 28)
      else if m \<in> {4, 6, 9, 11} then 30 else 31)"

definition strptime_ymd :: "string \<Rightarrow> py_error + nat \<times> nat \<times> nat" where
  "strptime_ymd date_str =
     (case date_str of
        y1 # y2 # y3 # y4 # h # rest \<Rightarrow>
          (let ms = takeWhile (\<lambda>c. c \<noteq> CHR ''-'') rest;
               ds = drop (Suc (length ms)) rest;
               y = digits_val [y1, y2, y3, y4];
               m = digits_val ms;
               d = digits_val (filter is_digit ds)
           in if is_digit y1 \<and> is_digit y2 \<and> is_digit y3 \<and> is_digit y4 \<and> h = CHR ''-'' \<and>
                 length ms < length rest \<and> month_digits ms \<and> day_digits ds \<and>
                 1 \<le> y \<and> d \<le> days_in_month y m
              then Inr (y, m, d) else Inl (ValueError date_str))
      | _ \<Rightarrow> Inl (ValueError date_str))"

subsection \<open>\<open>create_invoice\<close>\<close>

text \<open>
  Of the document only the line-item table and the total are kept, with what can stop
  the function before they are built: the date that does not parse, and the exceptions
  of the loop.  The flowables handed to the PDF library are not modelled.  A table
  cell is a string, or \<open>None\<close> for a description the CSV row did not have.
\<close>

record invoice_doc =
  doc_path :: string
  table_data :: "string option list list"
  total :: pydecimal

definition header_row :: "string option list" where
  "header_row = [Some ''Hours'', Some ''Description'', Some ''Rate'', Some ''Amount'']"

definition blank_row :: "string option list" where
  "blank_row = [Some [], Some [], Some [], Some []]"

definition total_row :: "pydecimal \<Rightarrow> string option list" where
  "total_row t = [Some [], Some [], Some ''Total'', Some (format_currency (float_of_Decimal t))]"

text \<open>
  The body of \<^verbatim>\<open>for item in line_items\<close> (lines 143 to 154): the state is \<open>total\<close> and
  \<open>table_data\<close>.
\<close>

definition item_step :: "line_item \<Rightarrow> pydecimal \<times> string option list list \<Rightarrow>
    py_error + pydecimal \<times> string option list list" where
  "item_step item st =
     (case dec_mul (Decimal_str_float (hours item)) (Decimal_str (rate item)) of
        Inl e \<Rightarrow> Inl e
      | Inr amount \<Rightarrow>
          (case dec_add (fst st) amount of
             Inl e \<Rightarrow> Inl e
           | Inr tot \<Rightarrow>
               (case fmt_num 2 (rate item) of
                  Inl e \<Rightarrow> Inl e
                | Inr rate_text \<Rightarrow>
                    Inr (tot, snd st @
                      [[Some (if float_truthy (hours item) then fmt_f 1 False (hours item) else []),
                        description item,
                        Some (''$'' @ rate_text),
                        Some (format_currency (float_of_Decimal amount))]]))))"

fun items_loop :: "line_item list \<Rightarrow> pydecimal \<times> string option list list \<Rightarrow>
    py_error + pydecimal \<times> string option list list" where
  "items_loop [] st = Inr st"
| "items_loop (item # items) st =
     (case item_step item st of
        Inl e \<Rightarrow> Inl e
      | Inr st' \<Rightarrow> items_loop items st')"

definition create_invoice ::
    "string \<Rightarrow> line_item list \<Rightarrow> string \<Rightarrow> config \<Rightarrow> py_error + string list \<times> invoice_doc" where
  "create_invoice date_str line_items output_path cfg =
     (case strptime_ymd date_str of
        Inl e \<Rightarrow> Inl e
      | Inr invoice_date \<Rightarrow>
          (case items_loop line_items (Dec False 0 0, [header_row]) of
             Inl e \<Rightarrow> Inl e
           | Inr (tot, rows) \<Rightarrow>
               (let empty_rows_needed = nat (max 0 (8 - int (length rows)));
                    rows = rows @ replicate empty_rows_needed blank_row;
                    rows = rows @ [total_row tot]
                in Inr ([''Invoice created: '' @ output_path],
                        \<lparr>doc_path = output_path, table_data = rows, total = tot\<rparr>))))"

subsection \<open>\<open>main\<close>\<close>

text \<open>
  The result is what was printed and the document written, if any; an exception that
  leaves \<open>main\<close> is \<open>Inl\<close>.
\<close>

definition main :: "env \<Rightarrow> args \<Rightarrow> py_error + string list \<times> invoice_doc option" where
  "main ev a =
     (case load_config ev (if str_truthy (args_config a) then args_config a else None) of
        Inl e \<Rightarrow> Inl e
      | Inr cfg \<Rightarrow>
          (let invoice_cfg = invoice cfg;
               source =
                 (if str_truthy (args_csv a) then
                    (case load_line_items_from_csv ev (the (args_csv a)) of
                       Inl e \<Rightarrow> Inl e
                     | Inr items \<Rightarrow> Inr (Some items))
                  else if (case args_hours a of None \<Rightarrow> False | Some h \<Rightarrow> float_truthy h) then
                    Inr (Some [\<lparr>hours = the (args_hours a),
                      description =
                        Some (if str_truthy (args_description a) then the (args_description a)
                              else default_description invoice_cfg),
                      rate =
                        (case args_rate a of
                           None \<Rightarrow> default_rate invoice_cfg
                         | Some r \<Rightarrow> if float_truthy r then PyFloat r else default_rate invoice_cfg)\<rparr>])
                  else Inr None)
           in case source of
                Inl e \<Rightarrow> Inl e
              | Inr None \<Rightarrow> Inr ([''Error: Must provide either --hours or --csv''], None)
              | Inr (Some line_items) \<Rightarrow>
                  (let output_path =
                         (if str_truthy (args_output a) then the (args_output a)
                          else filename_prefix invoice_cfg @ ''_'' @
                               filter (\<lambda>c. c \<noteq> CHR ''-'') (args_date a) @ ''.pdf'')
                   in case create_invoice (args_date a) line_items output_path cfg of
                        Inl e \<Rightarrow> Inl e
                      | Inr (out, doc) \<Rightarrow> Inr (out, Some doc))))"

section \<open>The secret publisher (\<open>store_config_in_1password.py\<close>)\<close>

text \<open>
  \<open>subprocess.run\<close> either cannot start the program (\<open>FileNotFoundError\<close>) or completes
  with a return code, standard output and standard error.
\<close>

datatype proc_result = ProgramNotFound | Completed int string string

record op_world =
  files :: "string \<rightharpoonup> string"
  run :: "string list \<Rightarrow> proc_result"

text \<open>What a call did: the commands it started, in order, and the lines it printed.\<close>

record op_trace =
  invoked :: "string list list"
  stdout :: "string list"
  stderr :: "string list"

datatype op_exit = Returned string | SysExit int

definition account_args :: "string option \<Rightarrow> string list" where
  "account_args account = (if str_truthy account then [''--account'', the account] else [])"

definition get_cmd :: "string \<Rightarrow> string \<Rightarrow> string option \<Rightarrow> string list" where
  "get_cmd vault title account =
     [''op'', ''item'', ''get'', title, ''--vault'', vault] @ account_args account"

definition edit_cmd :: "string \<Rightarrow> string \<Rightarrow> string \<Rightarrow> string option \<Rightarrow> string list" where
  "edit_cmd vault title config_content account =
     [''op'', ''item'', ''edit'', title, ''--vault'', vault, ''config[text]='' @ config_content] @
     account_args account"

definition create_cmd :: "string \<Rightarrow> string \<Rightarrow> string \<Rightarrow> string option \<Rightarrow> string list" where
  "create_cmd vault title config_content account =
     [''op'', ''item'', ''create'', ''--category'', ''Secure Note'', ''--vault'', vault,
      ''--title'', title, ''config[text]='' @ config_content] @ account_args account"

definition item_exists :: "op_world \<Rightarrow> string \<Rightarrow> string \<Rightarrow> string option \<Rightarrow> py_error + bool" where
  "item_exists w vault title account =
     (case run w (get_cmd vault title account) of
        ProgramNotFound \<Rightarrow> Inl (FileNotFoundError ''op'')
      | Completed returncode out err \<Rightarrow> Inr (returncode = 0))"

definition op_missing_message :: string where
  "op_missing_message =
     ''1Password CLI (op) not found. Install it from https://1password.com/downloads/command-line/''"

definition store_config :: "op_world \<Rightarrow> string \<Rightarrow> string \<Rightarrow> string \<Rightarrow> string option \<Rightarrow>
    op_trace \<times> op_exit" where
  "store_config w config_path vault title account =
     (case files w config_path of
        None \<Rightarrow>
          (\<lparr>invoked = [], stdout = [],
            stderr = [''Error: Config file not found: '' @ config_path]\<rparr>, SysExit 1)
      | Some config_content \<Rightarrow>
          (let lookup = get_cmd vault title account;
               ref = ''op://'' @ vault @ ''/'' @ title @ ''/config''
           in case item_exists w vault title account of
                Inl e \<Rightarrow>
                  (\<lparr>invoked = [lookup], stdout = [], stderr = [op_missing_message]\<rparr>, SysExit 1)
              | Inr found \<Rightarrow>
                  (let cmd = (if found then edit_cmd vault title config_content account
                              else create_cmd vault title config_content account)
                   in case run w cmd of
                        ProgramNotFound \<Rightarrow>
                          (\<lparr>invoked = [lookup, cmd], stdout = [],
                            stderr = [op_missing_message]\<rparr>, SysExit 1)
                      | Completed returncode out err \<Rightarrow>
                          if returncode \<noteq> 0 then
                            (\<lparr>invoked = [lookup, cmd], stdout = [],
                              stderr = [''Failed to store in 1Password: '' @ py_strip err]\<rparr>,
                             SysExit 1)
                          else
                            (\<lparr>invoked = [lookup, cmd],
                              stdout = [(if found then ''Config updated in 1Password: ''
                                         else ''Config stored in 1Password: '') @ ref],
                              stderr = []\<rparr>, Returned ref))))"

section \<open>Example inputs\<close>

text \<open>A configuration, a file system and a command line used by the examples below.\<close>

definition example_config :: config where
  "example_config =
     \<lparr>sender = Map.empty, client = Map.empty, bank = Map.empty,
      invoice = \<lparr>number_prefix = ''INV-'', filename_prefix = ''Invoice'',
                 default_description = ''Consulting Services'',
                 default_rate = PyFloat (Float False 1500 (- 1))\<rparr>\<rparr>"

definition good_row :: "string \<rightharpoonup> string option" where
  "good_row = [''hours'' \<mapsto> Some ''5'', ''description'' \<mapsto> Some ''Design'', ''rate'' \<mapsto> Some ''100'']"

definition bad_row :: "string \<rightharpoonup> string option" where
  "bad_row = [''hours'' \<mapsto> Some ''abc'', ''description'' \<mapsto> Some ''Review'', ''rate'' \<mapsto> Some ''100'']"

definition example_env :: env where
  "example_env =
     \<lparr>toml_files = [''config.toml'' \<mapsto> Some example_config],
      csv_files = [''items.csv'' \<mapsto> [good_row], ''bad1.csv'' \<mapsto> [bad_row],
                   ''bad2.csv'' \<mapsto> [good_row, bad_row]],
      default_config_path = ''config.toml''\<rparr>"

definition example_args :: args where
  "example_args =
     \<lparr>args_hours = None, args_rate = None, args_description = None,
      args_date = ''2025-12-02'', args_csv = None, args_output = None, args_config = None\<rparr>"


section \<open>Exact amounts\<close>



section \<open>Properties of the invoice builder\<close>



lemma example_load_config: "load_config example_env None = Inr example_config"
  by (simp add: load_config_def example_env_def)



lemma item_step_float_rate:
  "dec_mul (Decimal_str_float h) (Decimal_str_float r) = Inr amount \<Longrightarrow>
   dec_add t amount = Inr t' \<Longrightarrow>
   \<exists>row. item_step \<lparr>hours = h, description = d, rate = PyFloat r\<rparr> (t, rows) = Inr (t', rows @ [row])"
  by (simp add: item_step_def)





text \<open>
  C9: an invocation with \<open>--hours 0\<close> runs exactly as the same invocation without
  \<open>--hours\<close>; without a CSV file (and with a configuration that loads) that is the usage
  message and no invoice.  An invocation with \<open>--rate 0\<close> runs exactly as the same
  invocation without \<open>--rate\<close>: with hours given and no CSV file, the single line item
  carries the configuration's default rate.
\<close>

theorem C9_zero_hours_and_zero_rate_are_falsy:
  "main ev (a\<lparr>args_hours := Some (Float s 0 e)\<rparr>) = main ev (a\<lparr>args_hours := None\<rparr>)
   \<and> (load_config ev (if str_truthy (args_config a) then args_config a else None) = Inr cfg \<longrightarrow>
      \<not> str_truthy (args_csv a) \<longrightarrow>
      main ev (a\<lparr>args_hours := Some (Float s 0 e)\<rparr>) =
        Inr ([''Error: Must provide either --hours or --csv''], None))
   \<and> main ev (a\<lparr>args_rate := Some (Float s 0 e)\<rparr>) = main ev (a\<lparr>args_rate := None\<rparr>)
   \<and> (load_config ev (if str_truthy (args_config a) then args_config a else None) = Inr cfg \<longrightarrow>
      \<not> str_truthy (args_csv a) \<longrightarrow> args_hours a = Some h \<longrightarrow> float_truthy h \<longrightarrow>
      main ev (a\<lparr>args_rate := Some (Float s 0 e)\<rparr>) =
        (case create_invoice (args_date a)
                [\<lparr>hours = h,
                  description = Some (if str_truthy (args_description a) then the (args_description a)
                                      else default_description (invoice cfg)),
                  rate = default_rate (invoice cfg)\<rparr>]
                (if str_truthy (args_output a) then the (args_output a)
                 else filename_prefix (invoice cfg) @ ''_'' @
                      filter (\<lambda>c. c \<noteq> CHR ''-'') (args_date a) @ ''.pdf'')
                cfg of
           Inl err \<Rightarrow> Inl err
         | Inr (out, doc) \<Rightarrow> Inr (out, Some doc)))"
  by (simp add: main_def Let_def split: sum.splits)

theorem C9_witness:
  "main example_env (example_args\<lparr>args_hours := Some (Float False 0 (- 1))\<rparr>) =
     Inr ([''Error: Must provide either --hours or --csv''], None)
   \<and> main example_env (example_args\<lparr>args_hours := Some (Float False 80 (- 1)),
                                     args_rate := Some (Float False 0 (- 1))\<rparr>) =
     main example_env (example_args\<lparr>args_hours := Some (Float False 80 (- 1)), args_rate := None\<rparr>)"
  using C9_zero_hours_and_zero_rate_are_falsy
      [where ev = example_env and a = example_args and s = False and e = "- 1"
         and cfg = example_config]
    C9_zero_hours_and_zero_rate_are_falsy
      [where ev = example_env and a = "example_args\<lparr>args_hours := Some (Float False 80 (- 1))\<rparr>"
         and s = False and e = "- 1"]
  by (simp add: example_load_config example_args_def)

















subsection \<open>The total\<close>



















subsection \<open>Currency strings\<close>















section \<open>Properties of the secret publisher\<close>

text \<open>
  C4 (as stated) fails: with a configuration file in place but no \<open>op\<close> program to
  start, the lookup raises, and neither the create nor the update command is invoked.
\<close>

theorem C4_counterexample_no_op_program:
  "store_config \<lparr>files = [''config.toml'' \<mapsto> ''[sender]''], run = (\<lambda>cmd. ProgramNotFound)\<rparr>
     ''config.toml'' ''Private'' ''invoice-config'' None =
   (\<lparr>invoked = [[''op'', ''item'', ''get'', ''invoice-config'', ''--vault'', ''Private'']],
     stdout = [], stderr = [op_missing_message]\<rparr>, SysExit 1)"
  by (simp add: store_config_def item_exists_def get_cmd_def account_args_def)

text \<open>
  C4 (amended): for every invocation with an existing configuration file in which the
  lookup command can be started, the commands invoked are the lookup and then exactly
  one more: the update (\<open>edit\<close>) command when the lookup returned code 0, the create
  command otherwise; either one carries the raw text of the file as the payload
  \<open>config[text]=...\<close>, and the account arguments when an account is given.
\<close>

theorem C4_exactly_one_of_create_or_update:
  assumes "files w config_path = Some config_content"
    and "run w (get_cmd vault title account) = Completed returncode out err"
  shows "invoked (fst (store_config w config_path vault title account)) =
           [get_cmd vault title account,
            if item_exists w vault title account = Inr True
            then edit_cmd vault title config_content account
            else create_cmd vault title config_content account]
         \<and> item_exists w vault title account = Inr (returncode = 0)
         \<and> ''config[text]='' @ config_content \<in> set (edit_cmd vault title config_content account)
         \<and> ''config[text]='' @ config_content \<in> set (create_cmd vault title config_content account)"
proof -
  have ex: "item_exists w vault title account = Inr (returncode = 0)"
    using assms(2) by (simp add: item_exists_def)
  have inv: "invoked (fst (store_config w config_path vault title account)) =
      [get_cmd vault title account,
       if returncode = 0 then edit_cmd vault title config_content account
       else create_cmd vault title config_content account]"
    using assms(1) ex by (simp add: store_config_def Let_def split: proc_result.splits)
  have pay: "''config[text]='' @ config_content \<in> set (edit_cmd vault title config_content account)"
    "''config[text]='' @ config_content \<in> set (create_cmd vault title config_content account)"
    by (simp_all add: edit_cmd_def create_cmd_def)
  from ex inv pay show ?thesis by simp
qed

theorem C4_witness:
  "invoked (fst (store_config
      \<lparr>files = [''config.toml'' \<mapsto> ''[sender]''], run = (\<lambda>cmd. Completed 0 [] [])\<rparr>
      ''config.toml'' ''Private'' ''invoice-config'' None)) =
     [[''op'', ''item'', ''get'', ''invoice-config'', ''--vault'', ''Private''],
      [''op'', ''item'', ''edit'', ''invoice-config'', ''--vault'', ''Private'',
       ''config[text]=[sender]'']]"
  using C4_exactly_one_of_create_or_update
    [of "\<lparr>files = [''config.toml'' \<mapsto> ''[sender]''], run = (\<lambda>cmd. Completed 0 [] [])\<rparr>"
       "''config.toml''" "''[sender]''" "''Private''" "''invoice-config''" None 0 "[]" "[]"]
  by (simp add: get_cmd_def edit_cmd_def account_args_def)

text \<open>
  C8 (as stated) fails: the reference starts with \<open>op://\<close>, not with \<open>store://\<close>.
\<close>

theorem C8_counterexample_reference_prefix:
  "snd (store_config
      \<lparr>files = [''config.toml'' \<mapsto> ''[sender]''], run = (\<lambda>cmd. Completed 0 [] [])\<rparr>
      ''config.toml'' ''Private'' ''invoice-config'' None) =
     Returned ''op://Private/invoice-config/config''
   \<and> ''op://Private/invoice-config/config'' \<noteq> ''store://'' @ ''Private'' @ ''/'' @ ''invoice-config'' @ ''/config''"
  by (simp add: store_config_def item_exists_def Let_def)

text \<open>
  C8 (amended): every successful invocation with vault \<open>v\<close> and title \<open>t\<close> returns the
  reference \<open>op://v/t/config\<close>, and prints exactly one line, which ends with that
  reference: \<open>Config updated in 1Password: \<close> or \<open>Config stored in 1Password: \<close> followed
  by it.
\<close>

theorem C8_reference_string:
  assumes "snd (store_config w config_path v t account) = Returned r"
  shows "r = ''op://'' @ v @ ''/'' @ t @ ''/config'' \<and>
         (stdout (fst (store_config w config_path v t account)) = [''Config updated in 1Password: '' @ r] \<or>
          stdout (fst (store_config w config_path v t account)) = [''Config stored in 1Password: '' @ r]) \<and>
         stderr (fst (store_config w config_path v t account)) = []"
  using assms
  by (auto simp: store_config_def Let_def split: option.splits sum.splits proc_result.splits if_splits)

theorem C8_witness:
  "''op://Private/invoice-config/config'' = ''op://'' @ ''Private'' @ ''/'' @ ''invoice-config'' @ ''/config'' \<and>
   stderr (fst (store_config
      \<lparr>files = [''config.toml'' \<mapsto> ''[sender]''], run = (\<lambda>cmd. Completed 0 [] [])\<rparr>
      ''config.toml'' ''Private'' ''invoice-config'' None)) = []"
proof -
  have "snd (store_config
      \<lparr>files = [''config.toml'' \<mapsto> ''[sender]''], run = (\<lambda>cmd. Completed 0 [] [])\<rparr>
      ''config.toml'' ''Private'' ''invoice-config'' None) =
     Returned ''op://Private/invoice-config/config''"
    by (simp add: store_config_def item_exists_def Let_def)
  from C8_reference_string [OF this] show ?thesis by simp
qed



end
